theory Spec2Isabelle
  imports Main
begin

section \<open>JavaScript values\<close>

text \<open>
  Strings are \<^typ>\<open>string\<close>, one \<^typ>\<open>char\<close> per UTF-16 code unit, which
  covers the code units U+0000 to U+00FF. A value that \<^verbatim>\<open>response.json()\<close>
  can produce is a \<open>json\<close>; an object is the list of its own properties in
  insertion order, and numbers are the integral ones. \<^verbatim>\<open>undefined\<close> is
  \<open>None\<close> of \<open>json option\<close>.
\<close>

datatype json =
    JNull
  | JBool bool
  | JNum int
  | JStr string
  | JArr "json list"
  | JObj "(string \<times> json) list"

datatype error_class = Error | TypeError | SyntaxError | DOMException | NonError

record js_error =
  err_class :: error_class
  err_message :: string

text \<open>A settled promise: \<open>Inl\<close> is a rejection (a thrown value), \<open>Inr\<close> a fulfilment.\<close>

type_synonym 'a promise = "js_error + 'a"

definition new_Error :: "string \<Rightarrow> js_error" where
  "new_Error msg = \<lparr>err_class = Error, err_message = msg\<rparr>"

definition instanceof_TypeError :: "js_error \<Rightarrow> bool" where
  "instanceof_TypeError e = (err_class e = TypeError)"

text \<open>
  \<^verbatim>\<open>TypeError\<close>, \<^verbatim>\<open>SyntaxError\<close> and \<^verbatim>\<open>DOMException\<close> inherit from
  \<^verbatim>\<open>Error\<close>; \<open>NonError\<close> stands for a thrown value that is no Error object.
\<close>

definition instanceof_Error :: "js_error \<Rightarrow> bool" where
  "instanceof_Error e = (err_class e \<noteq> NonError)"

text \<open>Truthiness, as \<^verbatim>\<open>if (v)\<close> and \<^verbatim>\<open>v || w\<close> test it.\<close>

fun truthy :: "json \<Rightarrow> bool" where
  "truthy JNull = False"
| "truthy (JBool b) = b"
| "truthy (JNum n) = (n \<noteq> 0)"
| "truthy (JStr s) = (s \<noteq> [])"
| "truthy (JArr xs) = True"
| "truthy (JObj fs) = True"

fun truthy_opt :: "json option \<Rightarrow> bool" where
  "truthy_opt None = False"
| "truthy_opt (Some v) = truthy v"

text \<open>\<^verbatim>\<open>a || d\<close> with a truthy default \<open>d\<close>: \<open>a\<close> when it is truthy, \<open>d\<close> otherwise.\<close>

definition or_else :: "json option \<Rightarrow> json \<Rightarrow> json" where
  "or_else a d = (case a of None \<Rightarrow> d | Some v \<Rightarrow> if truthy v then v else d)"

text \<open>
  Reading a property \<^verbatim>\<open>v.k\<close>. On \<^verbatim>\<open>null\<close> the read throws a TypeError (the
  message is V8's); on an object it is the own property or \<^verbatim>\<open>undefined\<close>; on
  the other values it is \<^verbatim>\<open>undefined\<close> for the names this program reads
  (\<^verbatim>\<open>errorMessage\<close>, \<^verbatim>\<open>message\<close>, \<^verbatim>\<open>success\<close>), none of which is a
  built-in property.
\<close>

definition null_read_message :: "string \<Rightarrow> string" where
  "null_read_message k =
     ''Cannot read properties of null (reading '' @ [CHR 0x27] @ k @ [CHR 0x27] @ '')''"

fun get_prop :: "json \<Rightarrow> string \<Rightarrow> json option promise" where
  "get_prop JNull k = Inl \<lparr>err_class = TypeError, err_message = null_read_message k\<rparr>"
| "get_prop (JObj fs) k = Inr (map_of fs k)"
| "get_prop v k = Inr None"

text \<open>\<^verbatim>\<open>String.prototype.includes\<close>: the pattern occurs as a contiguous run.\<close>

fun startsWith :: "string \<Rightarrow> string \<Rightarrow> bool" where
  "startsWith s [] = True"
| "startsWith [] (p # ps) = False"
| "startsWith (c # cs) (p # ps) = (c = p \<and> startsWith cs ps)"

fun str_includes :: "string \<Rightarrow> string \<Rightarrow> bool" where
  "str_includes [] pat = (pat = [])"
| "str_includes (c # cs) pat = (startsWith (c # cs) pat \<or> str_includes cs pat)"

text \<open>
  \<^verbatim>\<open>Number.prototype.toString\<close> on an integer: its decimal numeral, which is what
  JavaScript prints for an integer of magnitude below \<open>10\<^sup>2\<^sup>1\<close> (from there on it
  prints the exponent form, which is outside this model).
\<close>

fun nat_toString :: "nat \<Rightarrow> string" where
  "nat_toString n =
     (if n < 10 then [''0123456789'' ! n]
      else nat_toString (n div 10) @ [''0123456789'' ! (n mod 10)])"

definition Number_toString :: "int \<Rightarrow> string" where
  "Number_toString i =
     (if i < 0 then CHR ''-'' # nat_toString (nat (- i)) else nat_toString (nat i))"

text \<open>
  The ToString conversion that \<^verbatim>\<open>new Error(v)\<close> applies to its argument: a string
  is itself, an array is its elements joined by commas (\<^verbatim>\<open>null\<close> elements as the
  empty string), an object is \<^verbatim>\<open>[object Object]\<close>. The last is the inherited
  \<^verbatim>\<open>Object.prototype.toString\<close>: an object with a \<^verbatim>\<open>toString\<close> or
  \<^verbatim>\<open>valueOf\<close> property of its own, on which the conversion throws, is outside this
  model.
\<close>

fun js_toString :: "json \<Rightarrow> string"
  and js_join :: "json list \<Rightarrow> string" where
  "js_toString JNull = ''null''"
| "js_toString (JBool b) = (if b then ''true'' else ''false'')"
| "js_toString (JNum n) = Number_toString n"
| "js_toString (JStr s) = s"
| "js_toString (JArr xs) = js_join xs"
| "js_toString (JObj fs) = ''[object Object]''"
| "js_join [] = []"
| "js_join [x] = (if x = JNull then [] else js_toString x)"
| "js_join (x # y # ys) =
     (if x = JNull then [] else js_toString x) @ '','' @ js_join (y # ys)"

section \<open>The browser: local storage and the network\<close>

text \<open>
  The world a request runs in: the contents of \<^verbatim>\<open>localStorage\<close>, the keys read
  from it so far, and the requests handed to \<^verbatim>\<open>fetch\<close> so far. Every operation
  on local storage goes through a function of this section, and these functions are the
  program's only access to the \<open>localStorage\<close> field.
\<close>

record request =
  req_url :: string
  req_method :: "string option"
  req_body :: "string option"
  req_headers :: "string \<rightharpoonup> string"

record response =
  status :: nat
  content_type :: "string option"
  json_result :: "json promise"
  text_result :: "string promise"

record world =
  localStorage :: "string \<rightharpoonup> string"
  storage_reads :: "string list"
  fetch_calls :: "request list"

text \<open>\<^verbatim>\<open>response.ok\<close>: the status is in the range 200 to 299.\<close>

definition ok :: "response \<Rightarrow> bool" where
  "ok r = (200 \<le> status r \<and> status r \<le> 299)"

definition localStorage_getItem :: "string \<Rightarrow> world \<Rightarrow> string option \<times> world" where
  "localStorage_getItem k w = (localStorage w k, w\<lparr>storage_reads := storage_reads w @ [k]\<rparr>)"

text \<open>
  \<^verbatim>\<open>fetch(url, init)\<close>: the network \<open>net\<close> decides how the request settles, either
  with a response or with a rejection (a transport failure).
\<close>

definition fetch :: "(request \<Rightarrow> response promise) \<Rightarrow> request \<Rightarrow> world \<Rightarrow> response promise \<times> world" where
  "fetch net req w = (net req, w\<lparr>fetch_calls := fetch_calls w @ [req]\<rparr>)"

section \<open>ApiService.makeRequest\<close>

text \<open>
  The options of a call (\<^verbatim>\<open>RequestInit\<close>): method, body, and the caller's headers
  as a plain object, absent when the caller gives none.
\<close>

record request_init =
  init_method :: "string option"
  init_body :: "string option"
  init_headers :: "(string \<rightharpoonup> string) option"

definition API_BASE_URL :: string where
  "API_BASE_URL = ''https://groceryapp-production-d3fc.up.railway.app/api''"

definition connectivity_message :: string where
  "connectivity_message =
     ''Network error: Unable to connect to server. Please check your internet connection.''"

text \<open>
  \<^verbatim>\<open>defaultHeaders\<close> after the token test: the two JSON headers, and
  \<^verbatim>\<open>Authorization\<close> when \<^verbatim>\<open>if (token)\<close> passes, that is for a stored non-empty
  string.
\<close>

definition defaultHeaders :: "string option \<Rightarrow> (string \<rightharpoonup> string)" where
  "defaultHeaders token =
     (let base = [''Content-Type'' \<mapsto> ''application/json'', ''Accept'' \<mapsto> ''application/json'']
      in case token of
           None \<Rightarrow> base
         | Some t \<Rightarrow> if t \<noteq> [] then base(''Authorization'' \<mapsto> ''Bearer '' @ t) else base)"

text \<open>Object spread \<^verbatim>\<open>{...a, ...b}\<close>; spreading \<^verbatim>\<open>undefined\<close> adds nothing.\<close>

definition spread_headers :: "(string \<rightharpoonup> string) \<Rightarrow> (string \<rightharpoonup> string) option \<Rightarrow> (string \<rightharpoonup> string)" where
  "spread_headers a b = (case b of None \<Rightarrow> a | Some h \<Rightarrow> a ++ h)"

text \<open>
  The arguments of \<^verbatim>\<open>fetch\<close>: the URL, and \<^verbatim>\<open>options\<close> with its headers replaced
  by the merged ones.
\<close>

definition fetch_argument :: "string \<Rightarrow> request_init \<Rightarrow> string option \<Rightarrow> request" where
  "fetch_argument endpoint options token =
     \<lparr>req_url = API_BASE_URL @ endpoint,
      req_method = init_method options,
      req_body = init_body options,
      req_headers = spread_headers (defaultHeaders token) (init_headers options)\<rparr>"

text \<open>
  \<^verbatim>\<open>contentType?.includes('application/json')\<close> picks how the body is read; both
  reads can reject.
\<close>

definition is_json_content_type :: "string option \<Rightarrow> bool" where
  "is_json_content_type contentType =
     (case contentType of None \<Rightarrow> False | Some ct \<Rightarrow> str_includes ct ''application/json'')"

definition read_body :: "response \<Rightarrow> json promise" where
  "read_body r =
     (if is_json_content_type (content_type r) then json_result r
      else (case text_result r of
              Inl e \<Rightarrow> Inl e
            | Inr text \<Rightarrow> Inr (JObj [(''message'', JStr text)])))"

text \<open>
  \<^verbatim>\<open>responseData.errorMessage || responseData.message || 'Request failed'\<close>. Both
  reads are of the same value, so the second one throws only where the first has
  thrown already.
\<close>

definition extract_errorMessage :: "json \<Rightarrow> json promise" where
  "extract_errorMessage responseData =
     (case get_prop responseData ''errorMessage'' of
        Inl e \<Rightarrow> Inl e
      | Inr a \<Rightarrow>
          (case get_prop responseData ''message'' of
             Inl e \<Rightarrow> Inl e
           | Inr b \<Rightarrow> Inr (or_else a (or_else b (JStr ''Request failed'')))))"

text \<open>The body of the \<^verbatim>\<open>try\<close> block once \<^verbatim>\<open>fetch\<close> has settled.\<close>

definition try_block :: "response promise \<Rightarrow> json promise" where
  "try_block fetched =
     (case fetched of
        Inl e \<Rightarrow> Inl e
      | Inr r \<Rightarrow>
          (case read_body r of
             Inl e \<Rightarrow> Inl e
           | Inr responseData \<Rightarrow>
               if ok r then Inr responseData
               else (case extract_errorMessage responseData of
                       Inl e \<Rightarrow> Inl e
                     | Inr errorMessage \<Rightarrow> Inl (new_Error (js_toString errorMessage)))))"

text \<open>The \<^verbatim>\<open>catch\<close> block: it sees every error the \<^verbatim>\<open>try\<close> block throws.\<close>

definition catch_block :: "js_error \<Rightarrow> js_error" where
  "catch_block e =
     (if instanceof_TypeError e \<and> str_includes (err_message e) ''Failed to fetch''
      then new_Error connectivity_message
      else e)"

definition makeRequest :: "(request \<Rightarrow> response promise) \<Rightarrow> string \<Rightarrow> request_init \<Rightarrow> world \<Rightarrow> json promise \<times> world" where
  "makeRequest net endpoint options w0 =
     (let (token, w1) = localStorage_getItem ''auth_token'' w0;
          (fetched, w2) = fetch net (fetch_argument endpoint options token) w1
      in (case try_block fetched of
            Inl e \<Rightarrow> Inl (catch_block e)
          | Inr responseData \<Rightarrow> Inr responseData,
          w2))"

section \<open>JSON.stringify and URLSearchParams\<close>

text \<open>
  \<^verbatim>\<open>JSON.stringify\<close>: a string is quoted, with the quote, the backslash and the
  control characters escaped.
\<close>

definition hex_lower :: string where
  "hex_lower = ''0123456789abcdef''"

definition hex_upper :: string where
  "hex_upper = ''0123456789ABCDEF''"

definition json_escape_char :: "char \<Rightarrow> string" where
  "json_escape_char c =
     (if c = CHR 0x22 then [CHR 0x5C, CHR 0x22]
      else if c = CHR 0x5C then [CHR 0x5C, CHR 0x5C]
      else if c = CHR 0x08 then [CHR 0x5C, CHR ''b'']
      else if c = CHR 0x0C then [CHR 0x5C, CHR ''f'']
      else if c = CHR 0x0A then [CHR 0x5C, CHR ''n'']
      else if c = CHR 0x0D then [CHR 0x5C, CHR ''r'']
      else if c = CHR 0x09 then [CHR 0x5C, CHR ''t'']
      else if (of_char c :: nat) < 0x20
        then [CHR 0x5C, CHR ''u'', CHR ''0'', CHR ''0'',
              hex_lower ! (of_char c div 16), hex_lower ! (of_char c mod 16)]
      else [c])"

definition JSON_quote :: "string \<Rightarrow> string" where
  "JSON_quote s = [CHR 0x22] @ concat (map json_escape_char s) @ [CHR 0x22]"

fun JSON_stringify :: "json \<Rightarrow> string"
  and stringify_elems :: "json list \<Rightarrow> string"
  and stringify_props :: "(string \<times> json) list \<Rightarrow> string" where
  "JSON_stringify JNull = ''null''"
| "JSON_stringify (JBool b) = (if b then ''true'' else ''false'')"
| "JSON_stringify (JNum n) = Number_toString n"
| "JSON_stringify (JStr s) = JSON_quote s"
| "JSON_stringify (JArr xs) = ''['' @ stringify_elems xs @ '']''"
| "JSON_stringify (JObj fs) = ''{'' @ stringify_props fs @ ''}''"
| "stringify_elems [] = []"
| "stringify_elems [x] = JSON_stringify x"
| "stringify_elems (x # y # ys) = JSON_stringify x @ '','' @ stringify_elems (y # ys)"
| "stringify_props [] = []"
| "stringify_props [(k, v)] = JSON_quote k @ '':'' @ JSON_stringify v"
| "stringify_props ((k, v) # p # ps) =
     JSON_quote k @ '':'' @ JSON_stringify v @ '','' @ stringify_props (p # ps)"

text \<open>
  \<^verbatim>\<open>URLSearchParams.prototype.toString\<close>: the pairs as \<^verbatim>\<open>name=value\<close> joined by
  \<^verbatim>\<open>&\<close>, each string percent-encoded byte by byte in UTF-8, except the ASCII
  letters and digits and \<^verbatim>\<open>*-._\<close>, with the space as \<^verbatim>\<open>+\<close>.
\<close>

definition urlencoded_safe :: "char \<Rightarrow> bool" where
  "urlencoded_safe c =
     (c \<in> set ''ABCDEFGHIJKLMNOPQRSTUVWXYZabcdefghijklmnopqrstuvwxyz0123456789*-._'')"

definition utf8_bytes :: "char \<Rightarrow> nat list" where
  "utf8_bytes c =
     (let n = (of_char c :: nat)
      in if n < 128 then [n] else [192 + n div 64, 128 + n mod 64])"

definition percent_byte :: "nat \<Rightarrow> string" where
  "percent_byte n = [CHR ''%'', hex_upper ! (n div 16), hex_upper ! (n mod 16)]"

definition urlencode_char :: "char \<Rightarrow> string" where
  "urlencode_char c =
     (if urlencoded_safe c then [c]
      else if c = CHR '' '' then ''+''
      else concat (map percent_byte (utf8_bytes c)))"

definition urlencode :: "string \<Rightarrow> string" where
  "urlencode s = concat (map urlencode_char s)"

fun URLSearchParams_toString :: "(string \<times> string) list \<Rightarrow> string" where
  "URLSearchParams_toString [] = []"
| "URLSearchParams_toString [(k, v)] = urlencode k @ ''='' @ urlencode v"
| "URLSearchParams_toString ((k, v) # p # ps) =
     urlencode k @ ''='' @ urlencode v @ ''&'' @ URLSearchParams_toString (p # ps)"

section \<open>ApiService methods\<close>

record ForgotPasswordRequest =
  fp_email :: string
  fp_newPassword :: string

definition forgotPassword :: "(request \<Rightarrow> response promise) \<Rightarrow> ForgotPasswordRequest \<Rightarrow> world \<Rightarrow> json promise \<times> world" where
  "forgotPassword net data w =
     makeRequest net ''/auth/forgot-password''
       \<lparr>init_method = Some ''POST'',
        init_body = Some (JSON_stringify
          (JObj [(''email'', JStr (fp_email data)), (''newPassword'', JStr (fp_newPassword data))])),
        init_headers = None\<rparr> w"

text \<open>
  \<^verbatim>\<open>getUsers(params?)\<close>: both the argument and its two fields are optional;
  \<^verbatim>\<open>user_id\<close> is an integer.
\<close>

record GetUsersRequest =
  gu_role :: "string option"
  gu_user_id :: "int option"

definition params_role :: "GetUsersRequest option \<Rightarrow> string option" where
  "params_role params = (case params of None \<Rightarrow> None | Some p \<Rightarrow> gu_role p)"

definition params_user_id :: "GetUsersRequest option \<Rightarrow> int option" where
  "params_user_id params = (case params of None \<Rightarrow> None | Some p \<Rightarrow> gu_user_id p)"

definition getUsers_queryParams :: "GetUsersRequest option \<Rightarrow> (string \<times> string) list" where
  "getUsers_queryParams params =
     (let q0 = [];
          q1 = (case params_role params of
                  None \<Rightarrow> q0
                | Some role \<Rightarrow> if role \<noteq> [] then q0 @ [(''role'', role)] else q0);
          q2 = (case params_user_id params of
                  None \<Rightarrow> q1
                | Some user_id \<Rightarrow>
                    if user_id \<noteq> 0 then q1 @ [(''user_id'', Number_toString user_id)] else q1)
      in q2)"

definition getUsers_endpoint :: "GetUsersRequest option \<Rightarrow> string" where
  "getUsers_endpoint params =
     (let queryString = URLSearchParams_toString (getUsers_queryParams params)
      in ''/auth/getUsers'' @ (if queryString \<noteq> [] then ''?'' @ queryString else []))"

definition getUsers :: "(request \<Rightarrow> response promise) \<Rightarrow> GetUsersRequest option \<Rightarrow> world \<Rightarrow> json promise \<times> world" where
  "getUsers net params w =
     makeRequest net (getUsers_endpoint params)
       \<lparr>init_method = Some ''GET'', init_body = None, init_headers = None\<rparr> w"

section \<open>ForgotPasswordPage\<close>

text \<open>
  The component's state hooks. \<open>error\<close> holds whatever \<^verbatim>\<open>setError\<close> was given,
  which for a server response is the value of its \<^verbatim>\<open>message\<close> field.
\<close>

record page_state =
  email :: string
  newPassword :: string
  confirmPassword :: string
  showPassword :: bool
  showConfirmPassword :: bool
  isLoading :: bool
  isSuccess :: bool
  error :: json

text \<open>The \<^verbatim>\<open>catch\<close> clause of \<^verbatim>\<open>handleSubmit\<close>.\<close>

definition submit_catch :: "js_error \<Rightarrow> page_state \<Rightarrow> page_state" where
  "submit_catch e st =
     st\<lparr>error := JStr (if instanceof_Error e then err_message e else ''An error occurred'')\<rparr>"

definition handleSubmit :: "(request \<Rightarrow> response promise) \<Rightarrow> page_state \<Rightarrow> world \<Rightarrow> page_state \<times> world" where
  "handleSubmit net st w =
     (if newPassword st \<noteq> confirmPassword st
        then (st\<lparr>error := JStr ''Passwords do not match''\<rparr>, w)
      else if length (newPassword st) < 8
        then (st\<lparr>error := JStr ''Password must be at least 8 characters long''\<rparr>, w)
      else
        (let st1 = st\<lparr>isLoading := True, error := JStr []\<rparr>;
             (settled, w') =
                forgotPassword net \<lparr>fp_email = email st, fp_newPassword = newPassword st\<rparr> w;
             st2 = (case settled of
                      Inl e \<Rightarrow> submit_catch e st1
                    | Inr response \<Rightarrow>
                        (case get_prop response ''success'' of
                           Inl e \<Rightarrow> submit_catch e st1
                         | Inr success \<Rightarrow>
                             if truthy_opt success then st1\<lparr>isSuccess := True\<rparr>
                             else (case get_prop response ''message'' of
                                     Inl e \<Rightarrow> submit_catch e st1
                                   | Inr m \<Rightarrow>
                                       st1\<lparr>error := or_else m (JStr ''Failed to reset password'')\<rparr>)))
         in (st2\<lparr>isLoading := False\<rparr>, w')))"

text \<open>
  What the component renders: the success screen with the e-mail address, or the form
  with the error banner (present when \<open>error\<close> is truthy) and the fields disabled
  while loading. The banner is what the component hands to React; a banner that is a
  string is displayed as it is, and what React does with one that is an object (it
  refuses to render it) is outside this model.
\<close>

datatype view =
    SuccessView string
  | FormView "json option" bool

definition render :: "page_state \<Rightarrow> view" where
  "render st =
     (if isSuccess st then SuccessView (email st)
      else FormView (if truthy (error st) then Some (error st) else None) (isLoading st))"

section \<open>Concrete servers and states\<close>

text \<open>
  Inputs for the evaluations below: a network that settles every request the same way,
  a browser with empty local storage, the options of a body-less GET (those of
  \<^verbatim>\<open>getAllCategories\<close>), responses with a JSON or a plain-text body, and a response
  that announces JSON and has an empty body, on which \<^verbatim>\<open>response.json()\<close> rejects.
\<close>

definition respond_with :: "response promise \<Rightarrow> request \<Rightarrow> response promise" where
  "respond_with p req = p"

definition empty_world :: world where
  "empty_world = \<lparr>localStorage = Map.empty, storage_reads = [], fetch_calls = []\<rparr>"

definition get_options :: request_init where
  "get_options = \<lparr>init_method = Some ''GET'', init_body = None, init_headers = None\<rparr>"

definition json_response :: "nat \<Rightarrow> json \<Rightarrow> response" where
  "json_response code body =
     \<lparr>status = code, content_type = Some ''application/json; charset=utf-8'',
      json_result = Inr body, text_result = Inr (JSON_stringify body)\<rparr>"

definition text_response :: "nat \<Rightarrow> string \<Rightarrow> response" where
  "text_response code text =
     \<lparr>status = code, content_type = Some ''text/plain'',
      json_result = Inl \<lparr>err_class = SyntaxError, err_message = ''Unexpected token''\<rparr>,
      text_result = Inr text\<rparr>"

definition unparsable_json_response :: "nat \<Rightarrow> response" where
  "unparsable_json_response code =
     \<lparr>status = code, content_type = Some ''application/json'',
      json_result = Inl \<lparr>err_class = SyntaxError, err_message = ''Unexpected end of JSON input''\<rparr>,
      text_result = Inr []\<rparr>"

definition filled_form :: "string \<Rightarrow> string \<Rightarrow> string \<Rightarrow> page_state" where
  "filled_form e p c =
     \<lparr>email = e, newPassword = p, confirmPassword = c, showPassword = False,
      showConfirmPassword = False, isLoading = False, isSuccess = False, error = JStr []\<rparr>"

section \<open>Properties of the helpers\<close>

lemma startsWith_iff: "startsWith s pat \<longleftrightarrow> (\<exists>b. s = pat @ b)"
  by (induction s pat rule: startsWith.induct) auto

lemma str_includes_iff: "str_includes s pat \<longleftrightarrow> (\<exists>a b. s = a @ pat @ b)"
proof (induction s)
  case Nil
  show ?case by auto
next
  case (Cons c cs)
  have "(\<exists>a b. c # cs = a @ pat @ b) \<longleftrightarrow> (\<exists>b. c # cs = pat @ b) \<or> (\<exists>a b. cs = a @ pat @ b)"
  proof
    assume "\<exists>a b. c # cs = a @ pat @ b"
    then obtain a b where ab: "c # cs = a @ pat @ b" by blast
    show "(\<exists>b. c # cs = pat @ b) \<or> (\<exists>a b. cs = a @ pat @ b)"
    proof (cases a)
      case Nil
      with ab show ?thesis by auto
    next
      case (Cons x a')
      with ab have "cs = a' @ pat @ b" by simp
      then show ?thesis by blast
    qed
  next
    assume "(\<exists>b. c # cs = pat @ b) \<or> (\<exists>a b. cs = a @ pat @ b)"
    then show "\<exists>a b. c # cs = a @ pat @ b"
    proof
      assume "\<exists>b. c # cs = pat @ b"
      then obtain b where "c # cs = [] @ pat @ b" by auto
      then show ?thesis by blast
    next
      assume "\<exists>a b. cs = a @ pat @ b"
      then obtain a b where "c # cs = (c # a) @ pat @ b" by auto
      then show ?thesis by blast
    qed
  qed
  with Cons show ?case by (simp add: startsWith_iff)
qed

text \<open>
  \<open>makeRequest\<close> split into its two components: the settled promise, and the world it
  leaves behind.
\<close>

lemma makeRequest_result:
  "fst (makeRequest net endpoint options w) =
     (case try_block (net (fetch_argument endpoint options (localStorage w ''auth_token''))) of
        Inl e \<Rightarrow> Inl (catch_block e)
      | Inr responseData \<Rightarrow> Inr responseData)"
  by (simp add: makeRequest_def localStorage_getItem_def fetch_def)

lemma makeRequest_world:
  "snd (makeRequest net endpoint options w) =
     w\<lparr>storage_reads := storage_reads w @ [''auth_token''],
       fetch_calls := fetch_calls w @ [fetch_argument endpoint options (localStorage w ''auth_token'')]\<rparr>"
  by (simp add: makeRequest_def localStorage_getItem_def fetch_def)

lemma json_response_simps [simp]:
  "status (json_response code body) = code"
  "is_json_content_type (content_type (json_response code body))"
  "json_result (json_response code body) = Inr body"
  by (simp_all add: json_response_def is_json_content_type_def)

lemma text_response_simps [simp]:
  "status (text_response code text) = code"
  "\<not> is_json_content_type (content_type (text_response code text))"
  "text_result (text_response code text) = Inr text"
  by (simp_all add: text_response_def is_json_content_type_def)

text \<open>The definitions that make up the \<^verbatim>\<open>try\<close> and \<^verbatim>\<open>catch\<close> blocks.\<close>

lemmas try_defs = try_block_def read_body_def extract_errorMessage_def or_else_def
  new_Error_def catch_block_def instanceof_TypeError_def

lemma get_prop_not_null: "responseData \<noteq> JNull \<Longrightarrow> \<exists>a. get_prop responseData k = Inr a"
  by (cases responseData) simp_all

section \<open>Local storage is only read\<close>

text \<open>
  C8. A call of \<open>makeRequest\<close> leaves the contents of local storage as they were,
  whatever the network does and whether the call resolves or rejects, and its only access
  is one read of the key \<^verbatim>\<open>auth_token\<close>.
\<close>

theorem makeRequest_localStorage_unchanged:
  "localStorage (snd (makeRequest net endpoint options w)) = localStorage w
   \<and> storage_reads (snd (makeRequest net endpoint options w)) = storage_reads w @ [''auth_token'']"
  by (simp add: makeRequest_world)

section \<open>Error responses\<close>

text \<open>
  C1. When the server answers with a status outside 200 to 299 and a JSON body that is an
  object whose field \<^verbatim>\<open>errorMessage\<close> is a non-empty string \<open>X\<close>, \<open>makeRequest\<close>
  rejects with an \<^verbatim>\<open>Error\<close> whose message is exactly \<open>X\<close>. This holds for every
  endpoint and every options object, hence for every method of the service, each of
  which is \<open>makeRequest\<close> at its own endpoint and options.
\<close>

theorem makeRequest_rejects_with_errorMessage:
  assumes "net (fetch_argument endpoint options (localStorage w ''auth_token'')) = Inr r"
    and "\<not> ok r"
    and "is_json_content_type (content_type r)"
    and "json_result r = Inr (JObj fs)"
    and "map_of fs ''errorMessage'' = Some (JStr X)"
    and "X \<noteq> []"
  shows "fst (makeRequest net endpoint options w) = Inl \<lparr>err_class = Error, err_message = X\<rparr>"
  using assms by (simp add: makeRequest_result try_defs)

theorem makeRequest_rejects_with_errorMessage_witness:
  "\<not> ok (json_response 401 (JObj [(''errorCode'', JNum 1), (''errorMessage'', JStr ''Invalid credentials'')]))
   \<and> fst (makeRequest
        (respond_with (Inr (json_response 401
           (JObj [(''errorCode'', JNum 1), (''errorMessage'', JStr ''Invalid credentials'')]))))
        ''/category/getAll'' get_options empty_world)
     = Inl \<lparr>err_class = Error, err_message = ''Invalid credentials''\<rparr>"
  using makeRequest_rejects_with_errorMessage
    [of "respond_with (Inr (json_response 401
           (JObj [(''errorCode'', JNum 1), (''errorMessage'', JStr ''Invalid credentials'')])))"
        "''/category/getAll''" get_options empty_world
        "json_response 401 (JObj [(''errorCode'', JNum 1), (''errorMessage'', JStr ''Invalid credentials'')])"
        "[(''errorCode'', JNum 1), (''errorMessage'', JStr ''Invalid credentials'')]"
        "''Invalid credentials''"]
  by (simp add: respond_with_def ok_def)

text \<open>
  An empty \<^verbatim>\<open>errorMessage\<close> is falsy, so the \<^verbatim>\<open>||\<close> chain passes over it: with
  the body \<^verbatim>\<open>{"errorMessage": ""}\<close> the message is the default one, not the empty
  string.
\<close>

theorem makeRequest_empty_errorMessage_counterexample:
  "\<not> ok (json_response 400 (JObj [(''errorMessage'', JStr [])]))
   \<and> map_of [(''errorMessage'', JStr [])] ''errorMessage'' = Some (JStr [])
   \<and> fst (makeRequest (respond_with (Inr (json_response 400 (JObj [(''errorMessage'', JStr [])]))))
        ''/category/getAll'' get_options empty_world)
     = Inl \<lparr>err_class = Error, err_message = ''Request failed''\<rparr>
   \<and> fst (makeRequest (respond_with (Inr (json_response 400 (JObj [(''errorMessage'', JStr [])]))))
        ''/category/getAll'' get_options empty_world)
     \<noteq> Inl \<lparr>err_class = Error, err_message = []\<rparr>"
  by (simp add: makeRequest_result try_defs respond_with_def ok_def)

text \<open>
  The default message. When both reads succeed, which they do on every body other than
  \<^verbatim>\<open>null\<close> (\<open>get_prop_not_null\<close>), and both \<^verbatim>\<open>errorMessage\<close> and
  \<^verbatim>\<open>message\<close> are absent or falsy, a response outside 200 to 299 is rejected with
  the message \<^verbatim>\<open>Request failed\<close>.
\<close>

lemma makeRequest_default_message:
  assumes "net (fetch_argument endpoint options (localStorage w ''auth_token'')) = Inr r"
    and "\<not> ok r"
    and "read_body r = Inr responseData"
    and "get_prop responseData ''errorMessage'' = Inr a" and "\<not> truthy_opt a"
    and "get_prop responseData ''message'' = Inr b" and "\<not> truthy_opt b"
  shows "fst (makeRequest net endpoint options w)
     = Inl \<lparr>err_class = Error, err_message = ''Request failed''\<rparr>"
  using assms
  by (cases a; cases b) (simp_all add: makeRequest_result try_defs)

text \<open>
  C2. A response outside 200 to 299 whose body has no usable message field should be
  rejected with \<^verbatim>\<open>Request failed\<close>. The body \<^verbatim>\<open>null\<close> has no such field,
  but reading \<^verbatim>\<open>responseData.errorMessage\<close> on it throws, the \<^verbatim>\<open>catch\<close> block
  passes the TypeError on, and the caller gets that TypeError in place of the default
  message.
\<close>

theorem makeRequest_null_body_TypeError:
  "\<not> ok (json_response 500 JNull)
   \<and> fst (makeRequest (respond_with (Inr (json_response 500 JNull)))
        ''/category/getAll'' get_options empty_world)
     = Inl \<lparr>err_class = TypeError,
            err_message = ''Cannot read properties of null (reading '' @ [CHR 0x27] @ ''errorMessage'' @ [CHR 0x27] @ '')''\<rparr>"
  by (simp add: makeRequest_result try_defs respond_with_def ok_def null_read_message_def)

section \<open>Transport failures\<close>

text \<open>
  The translation the \<^verbatim>\<open>catch\<close> block makes: when \<^verbatim>\<open>fetch\<close> rejects with a
  TypeError whose message contains \<^verbatim>\<open>Failed to fetch\<close>, \<open>makeRequest\<close> rejects with
  the fixed connectivity message, whatever else the message says.
\<close>

lemma makeRequest_failed_to_fetch:
  assumes "net (fetch_argument endpoint options (localStorage w ''auth_token'')) = Inl e"
    and "err_class e = TypeError"
    and "str_includes (err_message e) ''Failed to fetch''"
  shows "fst (makeRequest net endpoint options w) =
     Inl \<lparr>err_class = Error,
          err_message = ''Network error: Unable to connect to server. Please check your internet connection.''\<rparr>"
  using assms by (simp add: makeRequest_result try_defs connectivity_message_def)

text \<open>
  C3. Every transport failure should be rejected with the fixed connectivity message,
  whatever the text of the underlying error, and never with the raw error. The test in
  the \<^verbatim>\<open>catch\<close> block, written to recognise a real network failure, looks for the
  text \<^verbatim>\<open>Failed to fetch\<close>. A connection failure reported as the TypeError
  \<^verbatim>\<open>NetworkError when attempting to fetch resource.\<close> does not pass it, and the
  caller gets that raw TypeError, not the connectivity message.
\<close>

theorem makeRequest_transport_failure_raw_TypeError:
  "fst (makeRequest
      (respond_with (Inl \<lparr>err_class = TypeError,
                          err_message = ''NetworkError when attempting to fetch resource.''\<rparr>))
      ''/category/getAll'' get_options empty_world) =
     Inl \<lparr>err_class = TypeError, err_message = ''NetworkError when attempting to fetch resource.''\<rparr>
   \<and> fst (makeRequest
      (respond_with (Inl \<lparr>err_class = TypeError,
                          err_message = ''NetworkError when attempting to fetch resource.''\<rparr>))
      ''/category/getAll'' get_options empty_world) \<noteq>
     Inl \<lparr>err_class = Error,
          err_message = ''Network error: Unable to connect to server. Please check your internet connection.''\<rparr>"
  by (simp add: makeRequest_result try_defs respond_with_def)

section \<open>Successful responses\<close>

text \<open>
  C4. For a response with a status from 200 to 299 whose body can be read,
  \<open>makeRequest\<close> resolves with the body as it was read, whatever value that is: the
  value \<open>j\<close> that \<^verbatim>\<open>response.json()\<close> resolves with when the content type
  includes \<^verbatim>\<open>application/json\<close>, and otherwise the object
  \<^verbatim>\<open>{ message: t }\<close> around the text \<open>t\<close> that \<^verbatim>\<open>response.text()\<close> resolves
  with.
\<close>

theorem makeRequest_success_returns_body:
  assumes "net (fetch_argument endpoint options (localStorage w ''auth_token'')) = Inr r"
    and "ok r"
  shows "(is_json_content_type (content_type r) \<and> json_result r = Inr j \<longrightarrow>
            fst (makeRequest net endpoint options w) = Inr j)
       \<and> (\<not> is_json_content_type (content_type r) \<and> text_result r = Inr t \<longrightarrow>
            fst (makeRequest net endpoint options w) = Inr (JObj [(''message'', JStr t)]))"
  using assms by (simp add: makeRequest_result try_defs)

theorem makeRequest_success_returns_body_witness:
  "ok (json_response 200 (JArr [JNum 7, JNull]))
   \<and> fst (makeRequest (respond_with (Inr (json_response 200 (JArr [JNum 7, JNull]))))
        ''/category/getAll'' get_options empty_world) = Inr (JArr [JNum 7, JNull])
   \<and> ok (text_response 204 ''done'')
   \<and> fst (makeRequest (respond_with (Inr (text_response 204 ''done'')))
        ''/category/getAll'' get_options empty_world) = Inr (JObj [(''message'', JStr ''done'')])"
  using makeRequest_success_returns_body
    [of "respond_with (Inr (json_response 200 (JArr [JNum 7, JNull])))"
        "''/category/getAll''" get_options empty_world
        "json_response 200 (JArr [JNum 7, JNull])" "JArr [JNum 7, JNull]" "[]"]
    makeRequest_success_returns_body
    [of "respond_with (Inr (text_response 204 ''done''))"
        "''/category/getAll''" get_options empty_world
        "text_response 204 ''done''" JNull "''done''"]
  by (simp add: respond_with_def ok_def)

text \<open>
  The body is read before \<^verbatim>\<open>response.ok\<close> is tested, so a status from 200 to 299
  is not enough to resolve: on a 200 that announces JSON and has an empty body
  \<^verbatim>\<open>response.json()\<close> rejects, and \<open>makeRequest\<close> rejects with that SyntaxError.
\<close>

theorem makeRequest_unparsable_success_counterexample:
  "ok (unparsable_json_response 200)
   \<and> is_json_content_type (content_type (unparsable_json_response 200))
   \<and> fst (makeRequest (respond_with (Inr (unparsable_json_response 200)))
        ''/category/getAll'' get_options empty_world)
     = Inl \<lparr>err_class = SyntaxError, err_message = ''Unexpected end of JSON input''\<rparr>"
  by (simp add: makeRequest_result try_defs respond_with_def ok_def unparsable_json_response_def
      is_json_content_type_def)

section \<open>Request headers\<close>

text \<open>
  C5. \<open>makeRequest\<close> calls \<^verbatim>\<open>fetch\<close> once, and the headers of that call are, name
  by name: the caller's value when the caller's headers define the name; otherwise the
  default, which is \<^verbatim>\<open>application/json\<close> for \<^verbatim>\<open>Content-Type\<close> and
  \<^verbatim>\<open>Accept\<close>, \<^verbatim>\<open>Bearer\<close> and the token for \<^verbatim>\<open>Authorization\<close> when local
  storage holds a non-empty token under \<^verbatim>\<open>auth_token\<close>, and nothing for any other
  name.
\<close>

theorem makeRequest_headers_merged:
  "fetch_calls (snd (makeRequest net endpoint options w)) =
     fetch_calls w @ [last (fetch_calls (snd (makeRequest net endpoint options w)))]
   \<and> req_headers (last (fetch_calls (snd (makeRequest net endpoint options w)))) k =
     (case (case init_headers options of None \<Rightarrow> None | Some h \<Rightarrow> h k) of
        Some v \<Rightarrow> Some v
      | None \<Rightarrow>
          if k = ''Content-Type'' then Some ''application/json''
          else if k = ''Accept'' then Some ''application/json''
          else if k = ''Authorization''
            then (case localStorage w ''auth_token'' of
                    None \<Rightarrow> None
                  | Some t \<Rightarrow> if t \<noteq> [] then Some (''Bearer '' @ t) else None)
          else None)"
proof -
  have d: "defaultHeaders (localStorage w ''auth_token'') k =
     (if k = ''Content-Type'' then Some ''application/json''
          else if k = ''Accept'' then Some ''application/json''
          else if k = ''Authorization''
            then (case localStorage w ''auth_token'' of
                    None \<Rightarrow> None
                  | Some t \<Rightarrow> if t \<noteq> [] then Some (''Bearer '' @ t) else None)
          else None)"
    by (simp add: defaultHeaders_def split: option.splits)
  have m: "spread_headers a (init_headers options) k =
     (case (case init_headers options of None \<Rightarrow> None | Some h \<Rightarrow> h k) of
        Some v \<Rightarrow> Some v | None \<Rightarrow> a k)" for a
    by (simp add: spread_headers_def map_add_def split: option.splits)
  have h: "req_headers (last (fetch_calls (snd (makeRequest net endpoint options w)))) k =
     (case (case init_headers options of None \<Rightarrow> None | Some h \<Rightarrow> h k) of
        Some v \<Rightarrow> Some v | None \<Rightarrow> defaultHeaders (localStorage w ''auth_token'') k)"
    by (simp add: makeRequest_world fetch_argument_def m)
  have c: "fetch_calls (snd (makeRequest net endpoint options w)) =
     fetch_calls w @ [last (fetch_calls (snd (makeRequest net endpoint options w)))]"
    by (simp add: makeRequest_world)
  from h have "req_headers (last (fetch_calls (snd (makeRequest net endpoint options w)))) k =
     (case (case init_headers options of None \<Rightarrow> None | Some h \<Rightarrow> h k) of
        Some v \<Rightarrow> Some v
      | None \<Rightarrow>
          if k = ''Content-Type'' then Some ''application/json''
          else if k = ''Accept'' then Some ''application/json''
          else if k = ''Authorization''
            then (case localStorage w ''auth_token'' of
                    None \<Rightarrow> None
                  | Some t \<Rightarrow> if t \<noteq> [] then Some (''Bearer '' @ t) else None)
          else None)"
    unfolding d .
  with c show ?thesis by (rule conjI)
qed

text \<open>
  C10. A stored empty token is the same as no token: the call settles the same way and
  hands \<^verbatim>\<open>fetch\<close> the same requests as with the key absent, and when the caller
  gives no headers the request has no \<^verbatim>\<open>Authorization\<close> header. In general the
  default \<^verbatim>\<open>Authorization\<close> header is there exactly for a stored non-empty token.
\<close>

theorem makeRequest_empty_token_no_Authorization:
  "fst (makeRequest net endpoint options (w\<lparr>localStorage := (localStorage w)(''auth_token'' \<mapsto> [])\<rparr>))
     = fst (makeRequest net endpoint options (w\<lparr>localStorage := (localStorage w)(''auth_token'' := None)\<rparr>))
   \<and> fetch_calls (snd (makeRequest net endpoint options (w\<lparr>localStorage := (localStorage w)(''auth_token'' \<mapsto> [])\<rparr>)))
     = fetch_calls (snd (makeRequest net endpoint options (w\<lparr>localStorage := (localStorage w)(''auth_token'' := None)\<rparr>)))
   \<and> req_headers (last (fetch_calls (snd (makeRequest net endpoint (options\<lparr>init_headers := None\<rparr>)
         (w\<lparr>localStorage := (localStorage w)(''auth_token'' \<mapsto> [])\<rparr>))))) ''Authorization'' = None
   \<and> req_headers (last (fetch_calls (snd (makeRequest net endpoint (options\<lparr>init_headers := None\<rparr>) w)))) ''Authorization''
     = (case localStorage w ''auth_token'' of
          None \<Rightarrow> None
        | Some t \<Rightarrow> if t \<noteq> [] then Some (''Bearer '' @ t) else None)"
  by (simp add: makeRequest_result makeRequest_world fetch_argument_def spread_headers_def
      defaultHeaders_def split: option.splits)

section \<open>getUsers\<close>

text \<open>
  C9. A \<^verbatim>\<open>user_id\<close> of 0 and an empty \<^verbatim>\<open>role\<close> give the endpoint that the absent
  parameter gives; \<^verbatim>\<open>getUsers({user_id: 0})\<close> requests the plain
  \<^verbatim>\<open>/auth/getUsers\<close>; and the query parameters are exactly the truthy ones, the
  role first.
\<close>

theorem getUsers_omits_falsy_params:
  "getUsers_endpoint (Some (p\<lparr>gu_user_id := Some 0\<rparr>)) = getUsers_endpoint (Some (p\<lparr>gu_user_id := None\<rparr>))
   \<and> getUsers_endpoint (Some (p\<lparr>gu_role := Some []\<rparr>)) = getUsers_endpoint (Some (p\<lparr>gu_role := None\<rparr>))
   \<and> getUsers_endpoint (Some \<lparr>gu_role = None, gu_user_id = Some 0\<rparr>) = ''/auth/getUsers''
   \<and> map req_url (fetch_calls (snd (getUsers net (Some \<lparr>gu_role = None, gu_user_id = Some 0\<rparr>) w))) =
       map req_url (fetch_calls w) @ [API_BASE_URL @ ''/auth/getUsers'']
   \<and> getUsers_queryParams params =
       (case params_role params of
          None \<Rightarrow> []
        | Some role \<Rightarrow> if role \<noteq> [] then [(''role'', role)] else [])
       @ (case params_user_id params of
            None \<Rightarrow> []
          | Some user_id \<Rightarrow> if user_id \<noteq> 0 then [(''user_id'', Number_toString user_id)] else [])"
  by (simp add: getUsers_endpoint_def getUsers_queryParams_def params_role_def params_user_id_def
      getUsers_def makeRequest_world fetch_argument_def split: option.splits)

section \<open>ForgotPasswordPage.handleSubmit\<close>

text \<open>
  C6. When the two passwords differ, or the new password has fewer than 8 characters, a
  submission leaves the world as it is, so no request is made, and only sets the error:
  \<^verbatim>\<open>Passwords do not match\<close> for a mismatch, and the minimum-length message for a
  too short password that matches its confirmation. The form, which is what is on
  screen unless the reset has succeeded before, shows that message in its banner.
\<close>

theorem handleSubmit_validation_blocks_request:
  assumes "newPassword st \<noteq> confirmPassword st \<or> length (newPassword st) < 8"
  shows "snd (handleSubmit net st w) = w
     \<and> fetch_calls (snd (handleSubmit net st w)) = fetch_calls w
     \<and> fst (handleSubmit net st w) =
         st\<lparr>error := JStr (if newPassword st \<noteq> confirmPassword st then ''Passwords do not match''
                           else ''Password must be at least 8 characters long'')\<rparr>
     \<and> render (fst (handleSubmit net st w)) =
         (if isSuccess st then SuccessView (email st)
          else FormView (Some (JStr (if newPassword st \<noteq> confirmPassword st then ''Passwords do not match''
                           else ''Password must be at least 8 characters long''))) (isLoading st))"
  using assms by (auto simp add: handleSubmit_def render_def)

theorem handleSubmit_validation_blocks_request_witness:
  "fetch_calls (snd (handleSubmit (respond_with (Inr (json_response 200 (JObj [(''success'', JBool True)]))))
       (filled_form ''a@b.co'' ''longpassword1'' ''longpassword2'') empty_world)) = []
   \<and> render (fst (handleSubmit (respond_with (Inr (json_response 200 (JObj [(''success'', JBool True)]))))
       (filled_form ''a@b.co'' ''longpassword1'' ''longpassword2'') empty_world))
      = FormView (Some (JStr ''Passwords do not match'')) False
   \<and> fetch_calls (snd (handleSubmit (respond_with (Inr (json_response 200 (JObj [(''success'', JBool True)]))))
       (filled_form ''a@b.co'' ''short'' ''short'') empty_world)) = []
   \<and> render (fst (handleSubmit (respond_with (Inr (json_response 200 (JObj [(''success'', JBool True)]))))
       (filled_form ''a@b.co'' ''short'' ''short'') empty_world))
      = FormView (Some (JStr ''Password must be at least 8 characters long'')) False"
  using handleSubmit_validation_blocks_request
    [of "filled_form ''a@b.co'' ''longpassword1'' ''longpassword2''"
        "respond_with (Inr (json_response 200 (JObj [(''success'', JBool True)])))" empty_world]
    handleSubmit_validation_blocks_request
    [of "filled_form ''a@b.co'' ''short'' ''short''"
        "respond_with (Inr (json_response 200 (JObj [(''success'', JBool True)])))" empty_world]
  by (simp add: filled_form_def empty_world_def render_def)

text \<open>
  The mismatch is tested first, so a password that is too short and also differs from
  its confirmation gets the mismatch message, not the minimum-length one.
\<close>

theorem handleSubmit_short_mismatch_counterexample:
  "length (newPassword (filled_form ''a@b.co'' ''a'' ''b'')) < 8
   \<and> fetch_calls (snd (handleSubmit (respond_with (Inr (json_response 200 (JObj [(''success'', JBool True)]))))
       (filled_form ''a@b.co'' ''a'' ''b'') empty_world)) = []
   \<and> render (fst (handleSubmit (respond_with (Inr (json_response 200 (JObj [(''success'', JBool True)]))))
       (filled_form ''a@b.co'' ''a'' ''b'') empty_world))
      = FormView (Some (JStr ''Passwords do not match'')) False
   \<and> error (fst (handleSubmit (respond_with (Inr (json_response 200 (JObj [(''success'', JBool True)]))))
       (filled_form ''a@b.co'' ''a'' ''b'') empty_world))
      \<noteq> JStr ''Password must be at least 8 characters long''"
  by (simp add: handleSubmit_def render_def filled_form_def empty_world_def)

text \<open>
  C7. When a submission passes both checks and \<open>forgotPassword\<close> resolves with a
  response whose \<^verbatim>\<open>success\<close> field is truthy, the page is in its success state and
  renders the success view with the e-mail address of the state, which is the address
  sent in the body of the request.
\<close>

theorem handleSubmit_success_view:
  assumes "newPassword st = confirmPassword st"
    and "8 \<le> length (newPassword st)"
    and "forgotPassword net \<lparr>fp_email = email st, fp_newPassword = newPassword st\<rparr> w = (Inr response, w')"
    and "get_prop response ''success'' = Inr (Some v)"
    and "truthy v"
  shows "isSuccess (fst (handleSubmit net st w))
     \<and> render (fst (handleSubmit net st w)) = SuccessView (email st)
     \<and> map req_body (fetch_calls (snd (handleSubmit net st w))) =
         map req_body (fetch_calls w) @
         [Some (JSON_stringify (JObj [(''email'', JStr (email st)), (''newPassword'', JStr (newPassword st))]))]"
proof -
  have hs: "handleSubmit net st w = (st\<lparr>isLoading := False, error := JStr [], isSuccess := True\<rparr>, w')"
    using assms by (simp add: handleSubmit_def)
  have "w' = snd (forgotPassword net \<lparr>fp_email = email st, fp_newPassword = newPassword st\<rparr> w)"
    using assms(3) by simp
  then have calls: "map req_body (fetch_calls w') = map req_body (fetch_calls w) @
         [Some (JSON_stringify (JObj [(''email'', JStr (email st)), (''newPassword'', JStr (newPassword st))]))]"
    by (simp add: forgotPassword_def makeRequest_world fetch_argument_def)
  show ?thesis using hs calls by (simp add: render_def)
qed

theorem handleSubmit_success_view_witness:
  "fst (forgotPassword (respond_with (Inr (json_response 200 (JObj [(''success'', JBool True), (''message'', JStr ''ok'')]))))
         \<lparr>fp_email = ''a@b.co'', fp_newPassword = ''longpassword1''\<rparr> empty_world)
     = Inr (JObj [(''success'', JBool True), (''message'', JStr ''ok'')])
   \<and> render (fst (handleSubmit (respond_with (Inr (json_response 200 (JObj [(''success'', JBool True), (''message'', JStr ''ok'')]))))
       (filled_form ''a@b.co'' ''longpassword1'' ''longpassword1'') empty_world))
      = SuccessView ''a@b.co''"
  using handleSubmit_success_view
    [of "filled_form ''a@b.co'' ''longpassword1'' ''longpassword1''"
        "respond_with (Inr (json_response 200 (JObj [(''success'', JBool True), (''message'', JStr ''ok'')])))"
        empty_world
        "JObj [(''success'', JBool True), (''message'', JStr ''ok'')]"
        "snd (forgotPassword (respond_with (Inr (json_response 200 (JObj [(''success'', JBool True), (''message'', JStr ''ok'')]))))
         \<lparr>fp_email = ''a@b.co'', fp_newPassword = ''longpassword1''\<rparr> empty_world)"
        "JBool True"]
  by (simp add: filled_form_def forgotPassword_def makeRequest_result try_defs respond_with_def ok_def prod_eq_iff)

text \<open>
  A call that resolves is not enough: on the answer
  \<^verbatim>\<open>{"success": false, "message": "User not found"}\<close> with status 200 the page
  stays on the form and shows the message.
\<close>

theorem handleSubmit_unsuccessful_response_counterexample:
  "fst (forgotPassword (respond_with (Inr (json_response 200 (JObj [(''success'', JBool False), (''message'', JStr ''User not found'')]))))
         \<lparr>fp_email = ''a@b.co'', fp_newPassword = ''longpassword1''\<rparr> empty_world)
     = Inr (JObj [(''success'', JBool False), (''message'', JStr ''User not found'')])
   \<and> \<not> isSuccess (fst (handleSubmit (respond_with (Inr (json_response 200 (JObj [(''success'', JBool False), (''message'', JStr ''User not found'')]))))
       (filled_form ''a@b.co'' ''longpassword1'' ''longpassword1'') empty_world))
   \<and> render (fst (handleSubmit (respond_with (Inr (json_response 200 (JObj [(''success'', JBool False), (''message'', JStr ''User not found'')]))))
       (filled_form ''a@b.co'' ''longpassword1'' ''longpassword1'') empty_world))
      = FormView (Some (JStr ''User not found'')) False"
  by (simp add: handleSubmit_def render_def filled_form_def forgotPassword_def makeRequest_def
      localStorage_getItem_def fetch_def try_defs respond_with_def ok_def)

end
